theory Spec2Isabelle
  imports Main
begin

section \<open>JavaScript values the settings code looks at\<close>

text \<open>
  The plugin reads loosely typed JSON. A property that the code tests with \<open>!v\<close> or
  \<open>v ?? d\<close> is modelled by \<open>'a js\<close>: the value is \<open>undefined\<close>, \<open>null\<close> or a value
  of its declared type. Strings are lists of 8-bit characters (code units below 256).
\<close>

datatype 'a js = Undefined | Null | Val 'a

text \<open>Truthiness of a string-or-nullish value: \<open>undefined\<close>, \<open>null\<close> and \<open>""\<close> are falsy.\<close>

fun truthyStr :: "string js \<Rightarrow> bool" where
  "truthyStr (Val s) = (s \<noteq> [])"
| "truthyStr Undefined = False"
| "truthyStr Null = False"

text \<open>
  A top-level \<open>completedDays\<close> of the legacy schema: an array of date strings, or a value
  that is not an array, of which only the truthiness is looked at (\<open>null\<close> is
  \<open>NotArray False\<close>). Arrays are truthy in JavaScript, the empty one too.
\<close>

datatype legacyDays = DaysArray "string list" | NotArray bool

fun truthyDays :: "legacyDays option \<Rightarrow> bool" where
  "truthyDays None = False"
| "truthyDays (Some (DaysArray ds)) = True"
| "truthyDays (Some (NotArray b)) = b"

section \<open>Data model (settings.ts)\<close>

record Habit =
  habitId :: string
  name :: string
  completedDays :: "string list"

text \<open>
  \<open>HabitatorSettings\<close> as \<open>normalizeSettings\<close> returns it. \<open>activeHabitId\<close> is declared
  \<open>string | null\<close>, and the code can also store \<open>undefined\<close> there. The object is built
  with \<open>Object.assign\<close>, so a top-level \<open>completedDays\<close> of the input stays on it as an
  extra property: \<open>strayCompletedDays\<close>.
\<close>

record HabitatorSettings =
  year :: int
  habits :: "Habit list"
  activeHabitId :: "string js"
  strayCompletedDays :: "legacyDays option"

datatype HabitatorStorageMode = Plugin | DotHabitator | CustomSubdir

record HabitatorStorageConfig =
  storageMode :: HabitatorStorageMode
  customSubdir :: string

text \<open>
  A habit object as it is found in parsed JSON, before the loop of \<open>normalizeSettings\<close>
  has filled it in: \<open>id\<close> and \<open>name\<close> may be missing, null or empty, and
  \<open>completedDays\<close> may be something that is not an array (\<open>None\<close>).
\<close>

record RawHabit =
  raw_id :: "string js"
  raw_name :: "string js"
  raw_completedDays :: "string list option"

text \<open>
  The argument of \<open>normalizeSettings\<close>,
  \<open>Partial<HabitatorSettings> & { completedDays?: string[] }\<close>. For each property,
  \<open>None\<close> says that the object has no such own property, so \<open>Object.assign\<close> leaves
  the default in place; \<open>Some v\<close> is an own property with value \<open>v\<close>.
\<close>

record RawSettings =
  in_year :: "int option"
  in_habits :: "RawHabit list js option"
  in_activeHabitId :: "string js option"
  in_completedDays :: "legacyDays option"

definition emptyRecord :: RawSettings where
  "emptyRecord = \<lparr>in_year = None, in_habits = None, in_activeHabitId = None,
     in_completedDays = None\<rparr>"

section \<open>The host: clock, randomness, JSON\<close>

datatype error = Thrown

text \<open>
  What the code takes from its environment: the year of \<open>new Date()\<close> when the module is
  loaded, \<open>crypto.randomUUID\<close> when the host has it (its result at the n-th draw),
  \<open>Math.floor(Math.random() * 16)\<close> at the n-th draw, and the JSON codec for vault files.
  \<open>JSON.parse\<close> throws, or yields \<open>null\<close> (\<open>None\<close>), or yields an object, which the
  code reads as a settings record.
\<close>

record host =
  thisYear :: int
  randomUUID :: "(nat \<Rightarrow> string) option"
  random16 :: "nat \<Rightarrow> nat"
  json_parse :: "string \<Rightarrow> error + RawSettings option"
  json_stringify :: "HabitatorSettings \<Rightarrow> string"

definition DEFAULT_id :: string where
  "DEFAULT_id = ''00000000-0000-4000-8000-000000000001''"

text \<open>\<open>DEFAULT_SETTINGS.habits\<close>, read as the literal of settings.ts.\<close>

definition DEFAULT_habits :: "RawHabit list" where
  "DEFAULT_habits =
     [\<lparr>raw_id = Val DEFAULT_id, raw_name = Val ''Main habit'', raw_completedDays = Some []\<rparr>]"

definition DEFAULT_STORAGE_CONFIG :: HabitatorStorageConfig where
  "DEFAULT_STORAGE_CONFIG = \<lparr>storageMode = DotHabitator, customSubdir = ''habitator-data''\<rparr>"

section \<open>generateUuid\<close>

definition hexDigit :: "nat \<Rightarrow> char" where
  "hexDigit v = ''0123456789abcdef'' ! (v mod 16)"

text \<open>
  The callback of \<open>replace(/[xy]/g, ...)\<close> on the template: every \<open>x\<close> becomes a random
  hexadecimal digit \<open>r\<close>, every \<open>y\<close> the digit \<open>(r & 0x3) | 0x8\<close>, which for \<open>r < 16\<close> is
  \<open>r mod 4 + 8\<close>; all other characters stay. \<open>n\<close> counts the draws made so far.
\<close>

fun replaceXY :: "host \<Rightarrow> nat \<Rightarrow> string \<Rightarrow> string \<times> nat" where
  "replaceXY H n [] = ([], n)"
| "replaceXY H n (c # cs) =
     (if c = CHR ''x'' \<or> c = CHR ''y'' then
        (let r = random16 H n mod 16;
             v = (if c = CHR ''x'' then r else r mod 4 + 8);
             (rest, n') = replaceXY H (Suc n) cs
         in (hexDigit v # rest, n'))
      else
        (let (rest, n') = replaceXY H n cs in (c # rest, n')))"

definition generateUuid :: "host \<Rightarrow> nat \<Rightarrow> string \<times> nat" where
  "generateUuid H n =
     (case randomUUID H of
        Some f \<Rightarrow> (f n, Suc n)
      | None \<Rightarrow> replaceXY H n ''xxxxxxxx-xxxx-4xxx-yxxx-xxxxxxxxxxxx'')"

section \<open>sanitizeVaultRelativeDir, getDirName\<close>

definition backslash :: char where
  "backslash = CHR 0x5C"

text \<open>
  \<open>String.prototype.trim\<close> removes white space and line terminators from both ends;
  below code unit 256 these are TAB, LF, VT, FF, CR, SP and NBSP.
\<close>

definition isWhiteSpace :: "char \<Rightarrow> bool" where
  "isWhiteSpace c = (c \<in> {CHR 0x09, CHR 0x0A, CHR 0x0B, CHR 0x0C, CHR 0x0D, CHR 0x20, CHR 0xA0})"

definition trim :: "string \<Rightarrow> string" where
  "trim s = rev (dropWhile isWhiteSpace (rev (dropWhile isWhiteSpace s)))"

text \<open>\<open>replace(/\\/g, "/")\<close>\<close>

definition slashes :: "string \<Rightarrow> string" where
  "slashes s = map (\<lambda>c. if c = backslash then CHR ''/'' else c) s"

text \<open>\<open>replace(/^\/+/, "")\<close> and \<open>replace(/\/+$/, "")\<close>\<close>

definition stripLeadingSlashes :: "string \<Rightarrow> string" where
  "stripLeadingSlashes s = dropWhile (\<lambda>c. c = CHR ''/'') s"

definition stripTrailingSlashes :: "string \<Rightarrow> string" where
  "stripTrailingSlashes s = rev (dropWhile (\<lambda>c. c = CHR ''/'') (rev s))"

text \<open>\<open>s.includes(p)\<close>: \<open>p\<close> occurs in \<open>s\<close> as a contiguous substring.\<close>

fun includesStr :: "string \<Rightarrow> string \<Rightarrow> bool" where
  "includesStr [] p = (p = [])"
| "includesStr (c # cs) p = (take (length p) (c # cs) = p \<or> includesStr cs p)"

definition sanitizeVaultRelativeDir :: "string js \<Rightarrow> string" where
  "sanitizeVaultRelativeDir v =
     (let trimmed = stripTrailingSlashes (stripLeadingSlashes (slashes (trim
            (case v of Val s \<Rightarrow> s | Undefined \<Rightarrow> [] | Null \<Rightarrow> []))))
      in if trimmed = [] then customSubdir DEFAULT_STORAGE_CONFIG
         else if includesStr trimmed ''..'' then customSubdir DEFAULT_STORAGE_CONFIG
         else trimmed)"

section \<open>normalizeSettings\<close>

text \<open>\<open>!base.habits || base.habits.length === 0\<close>\<close>

fun noHabits :: "RawHabit list js \<Rightarrow> bool" where
  "noHabits (Val hs) = (hs = [])"
| "noHabits Undefined = True"
| "noHabits Null = True"

text \<open>
  The loop \<open>for (const habit of base.habits)\<close>, which fills in each habit in place;
  \<open>n\<close> counts the random draws.
\<close>

fun ensureHabits :: "host \<Rightarrow> nat \<Rightarrow> RawHabit list \<Rightarrow> Habit list \<times> nat" where
  "ensureHabits H n [] = ([], n)"
| "ensureHabits H n (h # hs) =
     (let (i, n1) = (if truthyStr (raw_id h)
                     then ((case raw_id h of Val s \<Rightarrow> s | Undefined \<Rightarrow> [] | Null \<Rightarrow> []), n)
                     else generateUuid H n);
          nm = (if truthyStr (raw_name h)
                then (case raw_name h of Val s \<Rightarrow> s | Undefined \<Rightarrow> [] | Null \<Rightarrow> [])
                else ''Habit'');
          ds = (case raw_completedDays h of Some d \<Rightarrow> d | None \<Rightarrow> []);
          (rest, n2) = ensureHabits H n1 hs
      in (\<lparr>habitId = i, name = nm, completedDays = ds\<rparr> # rest, n2))"

text \<open>\<open>DEFAULT_SETTINGS.habits[0]?.id ?? generateUuid()\<close>\<close>

definition migratedId :: "host \<Rightarrow> nat \<Rightarrow> string \<times> nat" where
  "migratedId H n =
     (case DEFAULT_habits of
        [] \<Rightarrow> generateUuid H n
      | d # _ \<Rightarrow> (case raw_id d of Val s \<Rightarrow> (s, n) | Undefined \<Rightarrow> generateUuid H n
                   | Null \<Rightarrow> generateUuid H n))"

definition normalizeSettings :: "host \<Rightarrow> nat \<Rightarrow> RawSettings option \<Rightarrow> HabitatorSettings \<times> nat" where
  "normalizeSettings H n input =
     (let inp = (case input of None \<Rightarrow> emptyRecord | Some r \<Rightarrow> r);
          base_year = (case in_year inp of None \<Rightarrow> thisYear H | Some y \<Rightarrow> y);
          base_habits = (case in_habits inp of None \<Rightarrow> Val DEFAULT_habits | Some v \<Rightarrow> v);
          base_active = (case in_activeHabitId inp of None \<Rightarrow> Val DEFAULT_id | Some v \<Rightarrow> v);
          migrate = (noHabits base_habits \<and> truthyDays (in_completedDays inp));
          (mid, n1) = (if migrate then migratedId H n else ([], n));
          migratedHabit = \<lparr>raw_id = Val mid, raw_name = Val ''Main habit'',
             raw_completedDays = Some (case in_completedDays inp of
                 Some (DaysArray ds) \<Rightarrow> ds | Some (NotArray b) \<Rightarrow> [] | None \<Rightarrow> [])\<rparr>;
          habits1 = (if migrate then Val [migratedHabit] else base_habits);
          active1 = (if migrate then Val mid else base_active);
          habits2 = (if noHabits habits1 then DEFAULT_habits
                     else (case habits1 of Val hs \<Rightarrow> hs | Undefined \<Rightarrow> [] | Null \<Rightarrow> []));
          active2 = (case habits2 of
                       [] \<Rightarrow> active1
                     | h # _ \<Rightarrow> if truthyStr active1 then active1 else raw_id h);
          (hs, n2) = ensureHabits H n1 habits2
      in (\<lparr>year = base_year, habits = hs, activeHabitId = active2,
            strayCompletedDays = in_completedDays inp\<rparr>, n2))"

text \<open>
  The settings object handed to \<open>normalizeSettings\<close> again, in memory: every property is
  an own property, \<open>activeHabitId\<close> also when its value is \<open>undefined\<close>.
\<close>

definition habitAsRaw :: "Habit \<Rightarrow> RawHabit" where
  "habitAsRaw h = \<lparr>raw_id = Val (habitId h), raw_name = Val (name h),
     raw_completedDays = Some (completedDays h)\<rparr>"

definition asInput :: "HabitatorSettings \<Rightarrow> RawSettings" where
  "asInput s = \<lparr>in_year = Some (year s), in_habits = Some (Val (map habitAsRaw (habits s))),
     in_activeHabitId = Some (activeHabitId s), in_completedDays = strayCompletedDays s\<rparr>"

text \<open>
  The settings object after \<open>JSON.stringify\<close> and \<open>JSON.parse\<close>: a property whose value
  is \<open>undefined\<close> is not written.
\<close>

definition toJson :: "HabitatorSettings \<Rightarrow> RawSettings" where
  "toJson s = \<lparr>in_year = Some (year s), in_habits = Some (Val (map habitAsRaw (habits s))),
     in_activeHabitId = (case activeHabitId s of Undefined \<Rightarrow> None | Null \<Rightarrow> Some Null
                         | Val a \<Rightarrow> Some (Val a)),
     in_completedDays = strayCompletedDays s\<rparr>"

section \<open>Storage configuration and paths\<close>

text \<open>\<open>lastIndexOf\<close>: the last position of a character, or \<open>-1\<close>.\<close>

definition lastIndexOf :: "string \<Rightarrow> char \<Rightarrow> int" where
  "lastIndexOf s c =
     (if c \<in> set s
      then int (length s) - 1 - int (length (takeWhile (\<lambda>d. d \<noteq> c) (rev s)))
      else - 1)"

definition getDirName :: "string \<Rightarrow> string" where
  "getDirName path =
     (let normalized = slashes path; idx = lastIndexOf normalized (CHR ''/'')
      in if idx \<le> 0 then [] else take (nat idx) normalized)"

definition getConfiguredHabitatorDataPath :: "HabitatorStorageConfig \<Rightarrow> string" where
  "getConfiguredHabitatorDataPath config =
     (if storageMode config = DotHabitator then ''.habitator/habitator.json''
      else if storageMode config = CustomSubdir
        then sanitizeVaultRelativeDir (Val (customSubdir config)) @ ''/habitator.json''
      else ''.habitator/habitator.json'')"

text \<open>The \<open>config\<close> object of the embedded store, as parsed JSON.\<close>

record RawConfig =
  raw_storageMode :: "string js"
  raw_customSubdir :: "string js"

fun modeString :: "HabitatorStorageMode \<Rightarrow> string" where
  "modeString Plugin = ''plugin''"
| "modeString DotHabitator = ''dot-habitator''"
| "modeString CustomSubdir = ''custom-subdir''"

definition normalizeStorageConfig :: "RawConfig option \<Rightarrow> HabitatorStorageConfig" where
  "normalizeStorageConfig input =
     (let mode = (case input of
                    None \<Rightarrow> modeString (storageMode DEFAULT_STORAGE_CONFIG)
                  | Some c \<Rightarrow> (case raw_storageMode c of
                        Val m \<Rightarrow> m
                      | Undefined \<Rightarrow> modeString (storageMode DEFAULT_STORAGE_CONFIG)
                      | Null \<Rightarrow> modeString (storageMode DEFAULT_STORAGE_CONFIG)));
          subdir = (case input of
                      None \<Rightarrow> customSubdir DEFAULT_STORAGE_CONFIG
                    | Some c \<Rightarrow> (case raw_customSubdir c of
                          Val d \<Rightarrow> d
                        | Undefined \<Rightarrow> customSubdir DEFAULT_STORAGE_CONFIG
                        | Null \<Rightarrow> customSubdir DEFAULT_STORAGE_CONFIG));
          normalizedMode =
            (if mode = ''plugin'' then Plugin
             else if mode = ''dot-habitator'' then DotHabitator
             else if mode = ''custom-subdir'' then CustomSubdir
             else storageMode DEFAULT_STORAGE_CONFIG)
      in \<lparr>storageMode = normalizedMode,
          customSubdir = sanitizeVaultRelativeDir (Val subdir)\<rparr>)"

definition configJson :: "HabitatorStorageConfig \<Rightarrow> RawConfig" where
  "configJson c = \<lparr>raw_storageMode = Val (modeString (storageMode c)),
     raw_customSubdir = Val (customSubdir c)\<rparr>"

section \<open>The plugin, its embedded store and the vault\<close>

text \<open>
  The document of the embedded store (\<open>loadData\<close>, \<open>saveData\<close>): \<open>config\<close> and \<open>data\<close>
  when present and not null, and \<open>blob_self\<close>, the document itself read as a settings
  record, which is what \<open>obj?.data ?? obj\<close> falls back to.
\<close>

record blob =
  blob_config :: "RawConfig option"
  blob_data :: "RawSettings option"
  blob_self :: RawSettings

text \<open>
  The vault adapter is the host's: \<open>exists\<close>, \<open>read\<close>, \<open>mkdir\<close> and \<open>write\<close> on a vault
  state \<open>'v\<close>, each of which may throw (\<open>Inl\<close>).
\<close>

record 'v adapter =
  adapter_exists :: "'v \<Rightarrow> string \<Rightarrow> error + bool"
  adapter_read :: "'v \<Rightarrow> string \<Rightarrow> error + string"
  adapter_mkdir :: "'v \<Rightarrow> string \<Rightarrow> error + 'v"
  adapter_write :: "'v \<Rightarrow> string \<Rightarrow> string \<Rightarrow> error + 'v"

text \<open>
  \<open>HabitatorPlugin\<close> with the two stores it writes to: the embedded document
  (\<open>None\<close> when \<open>loadData\<close> returns null) and the vault. \<open>draws\<close> counts the random
  draws made so far.
\<close>

record 'v plugin =
  settings :: HabitatorSettings
  storageConfig :: HabitatorStorageConfig
  pluginData :: "blob option"
  vault :: 'v
  draws :: nat

definition getActiveHabit :: "HabitatorSettings \<Rightarrow> Habit option" where
  "getActiveHabit s =
     (if habits s = [] then None
      else
        (let byId = (if truthyStr (activeHabitId s)
                     then find (\<lambda>h. Val (habitId h) = activeHabitId s) (habits s)
                     else None)
         in case byId of
              Some h \<Rightarrow> Some h
            | None \<Rightarrow> (case habits s of h # _ \<Rightarrow> Some h | [] \<Rightarrow> None)))"

definition tryLoadFromVaultFile :: "host \<Rightarrow> 'v adapter \<Rightarrow> 'v \<Rightarrow> string \<Rightarrow> RawSettings option" where
  "tryLoadFromVaultFile H A v path =
     (case adapter_exists A v path of
        Inl e \<Rightarrow> None
      | Inr ex \<Rightarrow>
          if \<not> ex then None
          else (case adapter_read A v path of
                  Inl e \<Rightarrow> None
                | Inr raw \<Rightarrow> (case json_parse H raw of
                      Inl e \<Rightarrow> None
                    | Inr parsed \<Rightarrow> parsed)))"

text \<open>
  The result is the boolean that is returned and the vault as the calls left it; a call
  that throws leaves the vault as it found it.
\<close>

definition trySaveToVaultFile ::
  "host \<Rightarrow> 'v adapter \<Rightarrow> 'v \<Rightarrow> string \<Rightarrow> HabitatorSettings \<Rightarrow> bool \<times> 'v" where
  "trySaveToVaultFile H A v path st =
     (let dir = getDirName path;
          made = (if dir \<noteq> [] then
                    (case adapter_exists A v dir of
                       Inl e \<Rightarrow> Inl e
                     | Inr dirExists \<Rightarrow> if \<not> dirExists then adapter_mkdir A v dir else Inr v)
                  else Inr v)
      in case made of
           Inl e \<Rightarrow> (False, v)
         | Inr v1 \<Rightarrow> (case adapter_write A v1 path (json_stringify H st) of
               Inl e \<Rightarrow> (False, v1)
             | Inr v2 \<Rightarrow> (True, v2)))"

definition tryLoadHabitDataFromConfiguredLocation ::
  "host \<Rightarrow> 'v adapter \<Rightarrow> HabitatorStorageConfig \<Rightarrow> 'v \<Rightarrow> blob option \<Rightarrow> RawSettings option" where
  "tryLoadHabitDataFromConfiguredLocation H A config v pluginBlob =
     (if storageMode config = Plugin then
        (case pluginBlob of
           None \<Rightarrow> None
         | Some obj \<Rightarrow> (case blob_data obj of Some d \<Rightarrow> Some d | None \<Rightarrow> Some (blob_self obj)))
      else tryLoadFromVaultFile H A v (getConfiguredHabitatorDataPath config))"

text \<open>
  \<open>saveData\<close> replaces the embedded document by the JSON of its argument, which has the
  properties \<open>config\<close> and, when given, \<open>data\<close>, and no others. It is the host's call
  and does not throw; the code calls it outside every \<open>try\<close>.
\<close>

definition saveData :: "HabitatorStorageConfig \<Rightarrow> HabitatorSettings option \<Rightarrow> 'v plugin \<Rightarrow> 'v plugin" where
  "saveData config d p =
     p\<lparr>pluginData := Some \<lparr>blob_config = Some (configJson config),
          blob_data = map_option toJson d, blob_self = emptyRecord\<rparr>\<rparr>"

definition saveSettings :: "host \<Rightarrow> 'v adapter \<Rightarrow> 'v plugin \<Rightarrow> 'v plugin" where
  "saveSettings H A p =
     (let p1 = saveData (storageConfig p)
                 (if storageMode (storageConfig p) = Plugin then Some (settings p) else None) p
      in if storageMode (storageConfig p1) = Plugin then p1
         else
           (let path = getConfiguredHabitatorDataPath (storageConfig p1);
                (saved, v') = trySaveToVaultFile H A (vault p1) path (settings p1);
                p2 = p1\<lparr>vault := v'\<rparr>
            in if \<not> saved then
                 (let p3 = p2\<lparr>storageConfig := (storageConfig p2)\<lparr>storageMode := Plugin\<rparr>\<rparr>
                  in saveData (storageConfig p3) (Some (settings p3)) p3)
               else p2))"

text \<open>
  The record of the migration fallback, \<open>const migrated\<close> in \<open>loadSettings\<close>: the
  fixed vault file, else the \<open>data\<close> of the embedded document, else that document
  itself, else \<open>{}\<close>.
\<close>

definition migrated :: "host \<Rightarrow> 'v adapter \<Rightarrow> 'v \<Rightarrow> blob option \<Rightarrow> RawSettings" where
  "migrated H A v pluginBlob =
     (case tryLoadFromVaultFile H A v ''.habitator/habitator.json'' of
        Some m \<Rightarrow> m
      | None \<Rightarrow> (case pluginBlob of
            None \<Rightarrow> emptyRecord
          | Some obj \<Rightarrow> (case blob_data obj of
                Some d \<Rightarrow> d
              | None \<Rightarrow> blob_self obj)))"

definition loadSettings :: "host \<Rightarrow> 'v adapter \<Rightarrow> 'v plugin \<Rightarrow> 'v plugin" where
  "loadSettings H A p =
     (let pluginBlob = pluginData p;
          p1 = p\<lparr>storageConfig := normalizeStorageConfig
                  (case pluginBlob of None \<Rightarrow> None | Some obj \<Rightarrow> blob_config obj)\<rparr>;
          dataFromSelected =
            tryLoadHabitDataFromConfiguredLocation H A (storageConfig p1) (vault p1) pluginBlob
      in case dataFromSelected of
           Some d \<Rightarrow>
             (let (st, n) = normalizeSettings H (draws p1) (Some d)
              in p1\<lparr>settings := st, draws := n\<rparr>)
         | None \<Rightarrow>
             (let (st, n) = normalizeSettings H (draws p1)
                              (Some (migrated H A (vault p1) pluginBlob))
              in saveSettings H A (p1\<lparr>settings := st, draws := n\<rparr>)))"

section \<open>Notions used to state the properties\<close>

text \<open>
  \<open>base.activeHabitId\<close> after \<open>Object.assign\<close>: the value the input carries, and the
  default id when the input has no such property.
\<close>

definition carriedActiveId :: "RawSettings \<Rightarrow> string js" where
  "carriedActiveId x = (case in_activeHabitId x of None \<Rightarrow> Val DEFAULT_id | Some v \<Rightarrow> v)"

text \<open>\<open>base.habits\<close> after \<open>Object.assign\<close>, likewise.\<close>

definition baseHabits :: "RawSettings \<Rightarrow> RawHabit list js" where
  "baseHabits x = (case in_habits x of None \<Rightarrow> Val DEFAULT_habits | Some v \<Rightarrow> v)"

text \<open>
  The condition under which the legacy migration runs:
  \<open>(!base.habits || base.habits.length === 0) && input?.completedDays\<close>.
\<close>

definition migrationFires :: "RawSettings \<Rightarrow> bool" where
  "migrationFires x = (noHabits (baseHabits x) \<and> truthyDays (in_completedDays x))"

text \<open>\<open>crypto.randomUUID\<close>, when the host has it, never returns the empty string.\<close>

definition uuidsNonEmpty :: "host \<Rightarrow> bool" where
  "uuidsNonEmpty H = (case randomUUID H of None \<Rightarrow> True | Some f \<Rightarrow> \<forall>n. f n \<noteq> [])"

text \<open>
  Settings in which every habit has an id and a name, there is a habit, and
  \<open>activeHabitId\<close> is a string that is not empty.
\<close>

definition filledIn :: "HabitatorSettings \<Rightarrow> bool" where
  "filledIn s =
     (habits s \<noteq> [] \<and> list_all (\<lambda>h. habitId h \<noteq> [] \<and> name h \<noteq> []) (habits s)
      \<and> truthyStr (activeHabitId s))"

section \<open>A host and a vault to run the code on\<close>

text \<open>
  A vault in memory: files with their text, directories, and a switch that makes
  \<open>mkdir\<close> and \<open>write\<close> throw, as a sandboxed file system does.
\<close>

record memVault =
  mv_files :: "(string \<times> string) list"
  mv_dirs :: "string list"
  mv_readonly :: bool

definition memAdapter :: "memVault adapter" where
  "memAdapter =
     \<lparr>adapter_exists = (\<lambda>v p. Inr (p \<in> set (mv_dirs v) \<or> map_of (mv_files v) p \<noteq> None)),
      adapter_read = (\<lambda>v p. case map_of (mv_files v) p of None \<Rightarrow> Inl Thrown | Some t \<Rightarrow> Inr t),
      adapter_mkdir = (\<lambda>v p. if mv_readonly v then Inl Thrown
                               else Inr (v\<lparr>mv_dirs := p # mv_dirs v\<rparr>)),
      adapter_write = (\<lambda>v p t. if mv_readonly v then Inl Thrown
                                 else Inr (v\<lparr>mv_files := (p, t) # mv_files v\<rparr>))\<rparr>"

text \<open>
  A host without \<open>crypto.randomUUID\<close>, whose \<open>Math.random\<close> always yields 0, in the year
  2026, and whose JSON parser knows the texts \<open>{}\<close> and \<open>null\<close>.
\<close>

definition testHost :: host where
  "testHost =
     \<lparr>thisYear = 2026, randomUUID = None, random16 = (\<lambda>n. 0),
      json_parse = (\<lambda>t. if t = ''{}'' then Inr (Some emptyRecord)
                          else if t = ''null'' then Inr None else Inl Thrown),
      json_stringify = (\<lambda>s. ''{...}'')\<rparr>"

text \<open>
  The plugin before \<open>onload\<close>: \<open>storageConfig\<close> has its initial value, \<open>settings\<close> is
  not assigned yet (a placeholder stands for it; \<open>loadSettings\<close> does not read it), and
  the embedded store is empty.
\<close>

definition freshPlugin :: "'v \<Rightarrow> 'v plugin" where
  "freshPlugin v =
     \<lparr>settings = \<lparr>year = 0, habits = [], activeHabitId = Undefined, strayCompletedDays = None\<rparr>,
      storageConfig = DEFAULT_STORAGE_CONFIG, pluginData = None, vault = v, draws = 0\<rparr>"

text \<open>A vault that holds the file \<open>.habitator/habitator.json\<close> with the text \<open>{}\<close>.\<close>

definition storedVault :: memVault where
  "storedVault = \<lparr>mv_files = [(''.habitator/habitator.json'', ''{}'')],
     mv_dirs = [''.habitator''], mv_readonly = False\<rparr>"

text \<open>An empty vault that refuses every \<open>mkdir\<close> and \<open>write\<close>.\<close>

definition sandboxedVault :: memVault where
  "sandboxedVault = \<lparr>mv_files = [], mv_dirs = [], mv_readonly = True\<rparr>"

text \<open>A plugin in the mode \<open>dot-habitator\<close> with one habit, on the sandboxed vault.\<close>

definition sandboxedPlugin :: "memVault plugin" where
  "sandboxedPlugin =
     \<lparr>settings = \<lparr>year = 2026,
                   habits = [\<lparr>habitId = ''a'', name = ''X'', completedDays = [''2026-01-01'']\<rparr>],
                   activeHabitId = Val ''a'', strayCompletedDays = None\<rparr>,
      storageConfig = DEFAULT_STORAGE_CONFIG, pluginData = None, vault = sandboxedVault,
      draws = 0\<rparr>"

text \<open>The record \<open>{ habits: [{ id: "", name: "X", completedDays: [] }], activeHabitId: null }\<close>.\<close>

definition emptyIdInput :: RawSettings where
  "emptyIdInput =
     \<lparr>in_year = None,
      in_habits = Some (Val [\<lparr>raw_id = Val '''', raw_name = Val ''X'',
                               raw_completedDays = Some []\<rparr>]),
      in_activeHabitId = Some Null, in_completedDays = None\<rparr>"

section \<open>The subdirectory sanitizer\<close>

lemmas sanitize_defs = sanitizeVaultRelativeDir_def trim_def slashes_def stripLeadingSlashes_def
  stripTrailingSlashes_def isWhiteSpace_def backslash_def DEFAULT_STORAGE_CONFIG_def

text \<open>\<open>includesStr\<close> is the substring relation.\<close>

lemma includesStr_iff: "includesStr s p \<longleftrightarrow> (\<exists>ps ss. s = ps @ p @ ss)"
proof (induction s)
  case Nil
  then show ?case by auto
next
  case (Cons c cs)
  have pre: "take (length p) (c # cs) = p \<longleftrightarrow> (\<exists>ss. c # cs = p @ ss)"
  proof
    assume "take (length p) (c # cs) = p"
    then have "c # cs = p @ drop (length p) (c # cs)"
      by (metis append_take_drop_id)
    then show "\<exists>ss. c # cs = p @ ss" ..
  next
    assume "\<exists>ss. c # cs = p @ ss"
    then show "take (length p) (c # cs) = p" by auto
  qed
  show ?case
  proof
    assume "includesStr (c # cs) p"
    then consider "take (length p) (c # cs) = p" | "includesStr cs p" by auto
    then show "\<exists>ps ss. c # cs = ps @ p @ ss"
    proof cases
      case 1
      then obtain ss where "c # cs = p @ ss" using pre by blast
      then have "c # cs = [] @ p @ ss" by simp
      then show ?thesis by blast
    next
      case 2
      then obtain ps ss where "cs = ps @ p @ ss" using Cons.IH by blast
      then have "c # cs = (c # ps) @ p @ ss" by simp
      then show ?thesis by blast
    qed
  next
    assume "\<exists>ps ss. c # cs = ps @ p @ ss"
    then obtain ps ss where eq: "c # cs = ps @ p @ ss" by blast
    show "includesStr (c # cs) p"
    proof (cases ps)
      case Nil
      with eq have "\<exists>ss. c # cs = p @ ss" by auto
      then show ?thesis using pre by simp
    next
      case (Cons a ps')
      with eq have "cs = ps' @ p @ ss" by simp
      then have "includesStr cs p" using Cons.IH by blast
      then show ?thesis by simp
    qed
  qed
qed

text \<open>Two dots in a row survive every step of the sanitizer's pipeline.\<close>

lemma includesStr_dropWhile:
  assumes "\<not> P (CHR ''.'')" and "includesStr s ''..''"
  shows "includesStr (dropWhile P s) ''..''"
  using assms(2)
proof (induction s)
  case Nil
  then show ?case by simp
next
  case (Cons c cs)
  show ?case
  proof (cases "P c")
    case True
    then have "c \<noteq> CHR ''.''" using assms(1) by auto
    then have "includesStr cs ''..''" using Cons.prems by simp
    then show ?thesis using True Cons.IH by simp
  next
    case False
    then show ?thesis using Cons.prems by simp
  qed
qed

lemma includesStr_rev:
  assumes "includesStr s ''..''"
  shows "includesStr (rev s) ''..''"
proof -
  obtain ps ss where "s = ps @ ''..'' @ ss" using assms includesStr_iff by blast
  then have "rev s = rev ss @ ''..'' @ rev ps" by simp
  then show ?thesis using includesStr_iff by blast
qed

lemma includesStr_map:
  assumes "f (CHR ''.'') = CHR ''.''" and "includesStr s ''..''"
  shows "includesStr (map f s) ''..''"
proof -
  obtain ps ss where "s = ps @ ''..'' @ ss" using assms(2) includesStr_iff by blast
  then have "map f s = map f ps @ ''..'' @ map f ss" using assms(1) by simp
  then show ?thesis using includesStr_iff by blast
qed

lemma dots_survive:
  assumes "includesStr s ''..''"
  shows "includesStr (stripTrailingSlashes (stripLeadingSlashes (slashes (trim s)))) ''..''"
proof -
  have ws: "\<not> isWhiteSpace (CHR ''.'')" by (simp add: isWhiteSpace_def)
  have sl: "\<not> (\<lambda>c. c = CHR ''/'') (CHR ''.'')" by simp
  have "includesStr (trim s) ''..''"
    unfolding trim_def
    by (intro includesStr_rev includesStr_dropWhile ws assms)
  then have "includesStr (slashes (trim s)) ''..''"
    unfolding slashes_def by (intro includesStr_map) (simp_all add: backslash_def)
  then have "includesStr (stripLeadingSlashes (slashes (trim s))) ''..''"
    unfolding stripLeadingSlashes_def by (intro includesStr_dropWhile sl)
  then show ?thesis
    unfolding stripTrailingSlashes_def by (intro includesStr_rev includesStr_dropWhile sl)
qed

text \<open>
  Claim C8. The sanitizer maps \<open>../../etc\<close> to the default subdirectory
  \<open>habitator-data\<close>, and the backslash-separated \<open>a\b\c\<close> to \<open>a/b/c\<close>.
\<close>

theorem sanitize_examples:
  "sanitizeVaultRelativeDir (Val ''../../etc'') = ''habitator-data''
   \<and> sanitizeVaultRelativeDir (Val [CHR ''a'', backslash, CHR ''b'', backslash, CHR ''c''])
       = ''a/b/c''"
  by (simp add: sanitize_defs)

text \<open>
  Claim C10. Every input string that contains two dots in a row, anywhere, is replaced
  by the default subdirectory \<open>habitator-data\<close>; so no output of the sanitizer, for
  any input, contains two dots in a row.
\<close>

theorem sanitize_rejects_dotdot:
  "(includesStr s ''..'' \<longrightarrow> sanitizeVaultRelativeDir (Val s) = ''habitator-data'')
   \<and> \<not> includesStr (sanitizeVaultRelativeDir v) ''..''"
proof
  show "includesStr s ''..'' \<longrightarrow> sanitizeVaultRelativeDir (Val s) = ''habitator-data''"
    using dots_survive [of s]
    by (simp add: sanitizeVaultRelativeDir_def Let_def DEFAULT_STORAGE_CONFIG_def)
  have "\<not> includesStr ''habitator-data'' ''..''" by simp
  then show "\<not> includesStr (sanitizeVaultRelativeDir v) ''..''"
    by (simp add: sanitizeVaultRelativeDir_def Let_def DEFAULT_STORAGE_CONFIG_def)
qed

theorem sanitize_rejects_dotdot_witness:
  "includesStr ''a..b'' ''..'' \<and> sanitizeVaultRelativeDir (Val ''a..b'') = ''habitator-data''
   \<and> \<not> includesStr (sanitizeVaultRelativeDir (Val ''a/b'')) ''..''"
  using sanitize_rejects_dotdot [of "''a..b''" "Val ''a/b''"] by simp

section \<open>normalizeSettings\<close>

lemma DEFAULT_id_nonempty: "DEFAULT_id \<noteq> []"
  by (simp add: DEFAULT_id_def)

lemma migratedId_eq: "migratedId H n = (DEFAULT_id, n)"
  by (simp add: migratedId_def DEFAULT_habits_def)

lemma ensureHabits_days:
  "map completedDays (fst (ensureHabits H n hs)) =
     map (\<lambda>h. case raw_completedDays h of Some d \<Rightarrow> d | None \<Rightarrow> []) hs"
  by (induction hs arbitrary: n) (simp_all add: Let_def split_beta)

lemma ensureHabits_DEFAULT:
  "ensureHabits H n DEFAULT_habits =
     ([\<lparr>habitId = DEFAULT_id, name = ''Main habit'', completedDays = []\<rparr>], n)"
  by (simp add: DEFAULT_habits_def DEFAULT_id_def)

lemma normalizeSettings_year:
  "year (fst (normalizeSettings H n x)) =
     (case x of None \<Rightarrow> thisYear H
      | Some r \<Rightarrow> (case in_year r of None \<Rightarrow> thisYear H | Some y \<Rightarrow> y))"
  by (simp add: normalizeSettings_def Let_def split_beta emptyRecord_def split: option.splits)

lemma normalizeSettings_habits_given:
  assumes "in_habits x = Some (Val (h # hs))"
  shows "habits (fst (normalizeSettings H n (Some x))) = fst (ensureHabits H n (h # hs))"
  using assms by (simp add: normalizeSettings_def Let_def split_beta)

text \<open>
  Claim C3 says that the year of the normalized settings always lies strictly between
  1900 and 3000. \<open>normalizeSettings\<close> does not look at the year: a record with the year
  5000 keeps it.
\<close>

theorem year_out_of_range_kept:
  "\<not> (1900 < year (fst (normalizeSettings testHost 0 (Some (emptyRecord\<lparr>in_year := Some 5000\<rparr>))))
      \<and> year (fst (normalizeSettings testHost 0 (Some (emptyRecord\<lparr>in_year := Some 5000\<rparr>)))) < 3000)"
  by (simp add: normalizeSettings_year)

text \<open>
  Claim C3, amended. The year of the normalized settings is the year the input record
  carries, and the default year (the current one) when the input is null or carries none.
  It lies in the range exactly when that year does; the range is checked where the user
  types a year, in the settings tab.
\<close>

theorem normalizeSettings_keeps_year:
  "year (fst (normalizeSettings H n x)) =
     (case x of None \<Rightarrow> thisYear H
      | Some r \<Rightarrow> (case in_year r of None \<Rightarrow> thisYear H | Some y \<Rightarrow> y))"
  by (rule normalizeSettings_year)

theorem normalizeSettings_keeps_year_witness:
  "year (fst (normalizeSettings testHost 0 (Some (emptyRecord\<lparr>in_year := Some 2024\<rparr>)))) = 2024
   \<and> year (fst (normalizeSettings testHost 0 None)) = 2026"
  using normalizeSettings_keeps_year [of testHost 0 "Some (emptyRecord\<lparr>in_year := Some 2024\<rparr>)"]
    normalizeSettings_keeps_year [of testHost 0 None]
  by (simp add: testHost_def)

text \<open>
  Claim C5. When the habits list of the input is not empty, a stray top-level
  \<open>completedDays\<close> is merged into no habit: whatever that field holds, the output has
  one habit for each input habit, with the days of that input habit. For the input
  \<open>{ habits: [{id:"a",name:"X",completedDays:["2024-01-01"]}], completedDays: ["2024-12-12"] }\<close>
  the output habit list is the one input habit with the single date \<open>2024-01-01\<close>.
\<close>

theorem stray_completedDays_ignored:
  "(in_habits x = Some (Val hs) \<and> hs \<noteq> [] \<longrightarrow>
      map completedDays (habits (fst (normalizeSettings H n (Some (x\<lparr>in_completedDays := d\<rparr>))))) =
        map (\<lambda>h. case raw_completedDays h of Some ds \<Rightarrow> ds | None \<Rightarrow> []) hs)
   \<and> habits (fst (normalizeSettings H n (Some
        \<lparr>in_year = None,
         in_habits = Some (Val [\<lparr>raw_id = Val ''a'', raw_name = Val ''X'',
                                  raw_completedDays = Some [''2024-01-01'']\<rparr>]),
         in_activeHabitId = None,
         in_completedDays = Some (DaysArray [''2024-12-12''])\<rparr>))) =
       [\<lparr>habitId = ''a'', name = ''X'', completedDays = [''2024-01-01'']\<rparr>]"
proof
  show "in_habits x = Some (Val hs) \<and> hs \<noteq> [] \<longrightarrow>
      map completedDays (habits (fst (normalizeSettings H n (Some (x\<lparr>in_completedDays := d\<rparr>))))) =
        map (\<lambda>h. case raw_completedDays h of Some ds \<Rightarrow> ds | None \<Rightarrow> []) hs"
  proof
    assume a: "in_habits x = Some (Val hs) \<and> hs \<noteq> []"
    then obtain h hs' where hs: "hs = h # hs'" by (cases hs) auto
    have "in_habits (x\<lparr>in_completedDays := d\<rparr>) = Some (Val (h # hs'))" using a hs by simp
    then have "habits (fst (normalizeSettings H n (Some (x\<lparr>in_completedDays := d\<rparr>)))) =
        fst (ensureHabits H n (h # hs'))"
      by (rule normalizeSettings_habits_given)
    then show "map completedDays (habits (fst (normalizeSettings H n (Some (x\<lparr>in_completedDays := d\<rparr>))))) =
        map (\<lambda>h. case raw_completedDays h of Some ds \<Rightarrow> ds | None \<Rightarrow> []) hs"
      using ensureHabits_days [of H n hs] hs by simp
  qed
next
  show "habits (fst (normalizeSettings H n (Some
        \<lparr>in_year = None,
         in_habits = Some (Val [\<lparr>raw_id = Val ''a'', raw_name = Val ''X'',
                                  raw_completedDays = Some [''2024-01-01'']\<rparr>]),
         in_activeHabitId = None,
         in_completedDays = Some (DaysArray [''2024-12-12''])\<rparr>))) =
       [\<lparr>habitId = ''a'', name = ''X'', completedDays = [''2024-01-01'']\<rparr>]"
    by (simp add: normalizeSettings_habits_given)
qed

theorem stray_completedDays_ignored_witness:
  "map completedDays (habits (fst (normalizeSettings testHost 0 (Some
      \<lparr>in_year = None,
       in_habits = Some (Val [\<lparr>raw_id = Val ''a'', raw_name = Val ''X'',
                                raw_completedDays = Some [''2024-01-01'']\<rparr>,
                              \<lparr>raw_id = Val ''b'', raw_name = Val ''Y'',
                                raw_completedDays = None\<rparr>]),
       in_activeHabitId = Some Null,
       in_completedDays = Some (DaysArray [''2024-12-12''])\<rparr>)))) = [[''2024-01-01''], []]"
  using stray_completedDays_ignored [of
      "\<lparr>in_year = None,
        in_habits = Some (Val [\<lparr>raw_id = Val ''a'', raw_name = Val ''X'',
                                 raw_completedDays = Some [''2024-01-01'']\<rparr>,
                               \<lparr>raw_id = Val ''b'', raw_name = Val ''Y'',
                                 raw_completedDays = None\<rparr>]),
        in_activeHabitId = Some Null, in_completedDays = None\<rparr>"
      "[\<lparr>raw_id = Val ''a'', raw_name = Val ''X'', raw_completedDays = Some [''2024-01-01'']\<rparr>,
        \<lparr>raw_id = Val ''b'', raw_name = Val ''Y'', raw_completedDays = None\<rparr>]"
      testHost 0 "Some (DaysArray [''2024-12-12''])"]
  by simp

text \<open>
  Claim C6 expects the legacy record \<open>{ completedDays: ["2024-01-01","2024-03-05"] }\<close>,
  which has no \<open>habits\<close> property, to become one habit that holds both dates. The
  defaults are merged in first, so \<open>base.habits\<close> is the default list of one habit and
  the migration does not run: the result is the default habit with no completed days,
  and the two dates stay behind in the stray top-level property.
\<close>

theorem legacy_record_not_migrated:
  "normalizeSettings H n (Some
       \<lparr>in_year = None, in_habits = None, in_activeHabitId = None,
        in_completedDays = Some (DaysArray [''2024-01-01'', ''2024-03-05''])\<rparr>) =
     (\<lparr>year = thisYear H,
       habits = [\<lparr>habitId = DEFAULT_id, name = ''Main habit'', completedDays = []\<rparr>],
       activeHabitId = Val DEFAULT_id,
       strayCompletedDays = Some (DaysArray [''2024-01-01'', ''2024-03-05''])\<rparr>, n)"
  by (simp add: normalizeSettings_def Let_def DEFAULT_habits_def DEFAULT_id_def)


lemma noHabits_cases:
  obtains "noHabits v" | h hs where "v = Val (h # hs)"
  by (cases v; cases "case v of Val hs \<Rightarrow> hs | _ \<Rightarrow> []") auto

text \<open>normalizeSettings in its three cases: habits given, migrated, defaulted.\<close>

lemma norm_given:
  assumes "baseHabits x = Val (h # hs)"
  shows "normalizeSettings H n (Some x) =
     (\<lparr>year = (case in_year x of None \<Rightarrow> thisYear H | Some y \<Rightarrow> y),
       habits = fst (ensureHabits H n (h # hs)),
       activeHabitId = (if truthyStr (carriedActiveId x) then carriedActiveId x else raw_id h),
       strayCompletedDays = in_completedDays x\<rparr>, snd (ensureHabits H n (h # hs)))"
proof -
  have b: "(case in_habits x of None \<Rightarrow> Val DEFAULT_habits | Some v \<Rightarrow> v) = Val (h # hs)"
    using assms by (simp add: baseHabits_def)
  show ?thesis
    by (simp add: normalizeSettings_def b carriedActiveId_def Let_def split_beta
        del: ensureHabits.simps)
qed

lemma norm_migrated:
  assumes "migrationFires x"
  shows "normalizeSettings H n (Some x) =
     (\<lparr>year = (case in_year x of None \<Rightarrow> thisYear H | Some y \<Rightarrow> y),
       habits = [\<lparr>habitId = DEFAULT_id, name = ''Main habit'',
                  completedDays = (case in_completedDays x of
                      Some (DaysArray ds) \<Rightarrow> ds | Some (NotArray b) \<Rightarrow> [] | None \<Rightarrow> [])\<rparr>],
       activeHabitId = Val DEFAULT_id,
       strayCompletedDays = in_completedDays x\<rparr>, n)"
proof -
  have b: "noHabits (case in_habits x of None \<Rightarrow> Val DEFAULT_habits | Some v \<Rightarrow> v) = True"
    and d: "truthyDays (in_completedDays x) = True"
    using assms by (simp_all add: migrationFires_def baseHabits_def)
  show ?thesis
    by (simp add: normalizeSettings_def b d migratedId_eq DEFAULT_id_nonempty Let_def)
qed

lemma norm_defaulted:
  assumes "noHabits (baseHabits x)" and "\<not> truthyDays (in_completedDays x)"
  shows "normalizeSettings H n (Some x) =
     (\<lparr>year = (case in_year x of None \<Rightarrow> thisYear H | Some y \<Rightarrow> y),
       habits = [\<lparr>habitId = DEFAULT_id, name = ''Main habit'', completedDays = []\<rparr>],
       activeHabitId = (if truthyStr (carriedActiveId x) then carriedActiveId x
                        else Val DEFAULT_id),
       strayCompletedDays = in_completedDays x\<rparr>, n)"
proof -
  have b: "noHabits (case in_habits x of None \<Rightarrow> Val DEFAULT_habits | Some v \<Rightarrow> v) = True"
    and d: "truthyDays (in_completedDays x) = False"
    using assms by (simp_all add: baseHabits_def)
  show ?thesis
    by (simp add: normalizeSettings_def b d carriedActiveId_def Let_def DEFAULT_habits_def
        DEFAULT_id_nonempty)
qed








text \<open>
  Claim C4 says that \<open>normalizeSettings\<close> is idempotent. The code sets \<open>activeHabitId\<close>
  to the id of the first habit before the loop that gives every habit an id. For the
  input \<open>{ habits: [{id:"",name:"X",completedDays:[]}], activeHabitId: null }\<close> the first
  pass returns \<open>activeHabitId = ""\<close> beside a habit with a generated id, and a second
  pass over that result returns the generated id as \<open>activeHabitId\<close>: the two results
  differ.
\<close>

theorem normalize_twice_differs:
  "activeHabitId (fst (normalizeSettings testHost 0 (Some emptyIdInput))) = Val ''''
   \<and> habits (fst (normalizeSettings testHost 0 (Some emptyIdInput))) =
       [\<lparr>habitId = ''00000000-0000-4000-8000-000000000000'', name = ''X'', completedDays = []\<rparr>]
   \<and> activeHabitId (fst (normalizeSettings testHost
         (snd (normalizeSettings testHost 0 (Some emptyIdInput)))
         (Some (asInput (fst (normalizeSettings testHost 0 (Some emptyIdInput))))))) =
       Val ''00000000-0000-4000-8000-000000000000''
   \<and> fst (normalizeSettings testHost
         (snd (normalizeSettings testHost 0 (Some emptyIdInput)))
         (Some (asInput (fst (normalizeSettings testHost 0 (Some emptyIdInput))))))
       \<noteq> fst (normalizeSettings testHost 0 (Some emptyIdInput))"
proof -
  have one: "normalizeSettings testHost 0 (Some emptyIdInput) =
      (\<lparr>year = 2026,
        habits = [\<lparr>habitId = ''00000000-0000-4000-8000-000000000000'', name = ''X'',
                   completedDays = []\<rparr>],
        activeHabitId = Val '''', strayCompletedDays = None\<rparr>, 31)"
    by (simp add: normalizeSettings_def emptyIdInput_def Let_def generateUuid_def testHost_def
        hexDigit_def)
  have two: "activeHabitId (fst (normalizeSettings testHost 31 (Some (asInput
      \<lparr>year = 2026,
        habits = [\<lparr>habitId = ''00000000-0000-4000-8000-000000000000'', name = ''X'',
                   completedDays = []\<rparr>],
        activeHabitId = Val '''', strayCompletedDays = None\<rparr>)))) =
      Val ''00000000-0000-4000-8000-000000000000''"
    by (simp add: normalizeSettings_def Let_def asInput_def habitAsRaw_def)
  have three: "fst (normalizeSettings testHost 31 (Some (asInput
      \<lparr>year = 2026,
        habits = [\<lparr>habitId = ''00000000-0000-4000-8000-000000000000'', name = ''X'',
                   completedDays = []\<rparr>],
        activeHabitId = Val '''', strayCompletedDays = None\<rparr>)))
      \<noteq> \<lparr>year = 2026,
        habits = [\<lparr>habitId = ''00000000-0000-4000-8000-000000000000'', name = ''X'',
                   completedDays = []\<rparr>],
        activeHabitId = Val '''', strayCompletedDays = None\<rparr>"
    using two by auto
  show ?thesis using two three by (simp add: one)
qed

text \<open>
  The migration itself works when it runs: a record with \<open>habits: []\<close> beside the
  legacy days becomes one habit that holds them.
\<close>

lemma legacy_record_with_empty_habits_migrated:
  "normalizeSettings H n (Some
       \<lparr>in_year = None, in_habits = Some (Val []), in_activeHabitId = None,
        in_completedDays = Some (DaysArray [''2024-01-01'', ''2024-03-05''])\<rparr>) =
     (\<lparr>year = thisYear H,
       habits = [\<lparr>habitId = DEFAULT_id, name = ''Main habit'',
                  completedDays = [''2024-01-01'', ''2024-03-05'']\<rparr>],
       activeHabitId = Val DEFAULT_id,
       strayCompletedDays = Some (DaysArray [''2024-01-01'', ''2024-03-05''])\<rparr>, n)"
  by (simp add: norm_migrated migrationFires_def baseHabits_def)

text \<open>
  Generated ids are not empty, so after normalization every habit has an id and a name;
  settings that are filled in are a fixed point of \<open>normalizeSettings\<close>, in memory and
  through JSON.
\<close>

lemma replaceXY_length: "length (fst (replaceXY H n s)) = length s"
  by (induction s arbitrary: n) (simp_all add: Let_def split_beta)

lemma generateUuid_nonempty:
  assumes "uuidsNonEmpty H"
  shows "fst (generateUuid H n) \<noteq> []"
proof (cases "randomUUID H")
  case None
  have "length (fst (replaceXY H n ''xxxxxxxx-xxxx-4xxx-yxxx-xxxxxxxxxxxx'')) = 36"
    by (simp only: replaceXY_length) simp
  then show ?thesis using None by (auto simp: generateUuid_def)
next
  case (Some f)
  then show ?thesis using assms by (simp add: generateUuid_def uuidsNonEmpty_def)
qed

lemma ensureHabits_filled:
  assumes "uuidsNonEmpty H"
  shows "list_all (\<lambda>h. habitId h \<noteq> [] \<and> name h \<noteq> []) (fst (ensureHabits H n hs))"
proof (induction hs arbitrary: n)
  case Nil
  then show ?case by simp
next
  case (Cons h hs)
  have "truthyStr (raw_id h) \<Longrightarrow> (case raw_id h of Val s \<Rightarrow> s | _ \<Rightarrow> []) \<noteq> []"
    by (cases "raw_id h") auto
  moreover have "truthyStr (raw_name h) \<Longrightarrow> (case raw_name h of Val s \<Rightarrow> s | _ \<Rightarrow> []) \<noteq> []"
    by (cases "raw_name h") auto
  ultimately show ?case
    using Cons.IH generateUuid_nonempty [OF assms, of n]
    by (simp add: Let_def split_beta)
qed

lemma ensureHabits_nonempty: "(fst (ensureHabits H n hs) = []) = (hs = [])"
  by (cases hs) (simp_all add: Let_def split_beta)

lemma ensureHabits_fix:
  assumes "list_all (\<lambda>h. habitId h \<noteq> [] \<and> name h \<noteq> []) hs"
  shows "ensureHabits H n (map habitAsRaw hs) = (hs, n)"
  using assms by (induction hs) (simp_all add: habitAsRaw_def Let_def)

lemma normalize_fix:
  assumes "filledIn s" and "x = toJson s \<or> x = asInput s"
  shows "normalizeSettings H n (Some x) = (s, n)"
proof -
  obtain h hs where hs: "habits s = h # hs" using assms(1) by (cases "habits s") (auto simp: filledIn_def)
  have b: "baseHabits x = Val (habitAsRaw h # map habitAsRaw hs)"
    using assms(2) hs by (auto simp: baseHabits_def toJson_def asInput_def)
  have all: "list_all (\<lambda>h. habitId h \<noteq> [] \<and> name h \<noteq> []) (h # hs)"
    using assms(1) hs by (simp add: filledIn_def)
  have e: "ensureHabits H n (habitAsRaw h # map habitAsRaw hs) = (h # hs, n)"
    using ensureHabits_fix [OF all, of H n] by simp
  obtain a where a: "activeHabitId s = Val a" "a \<noteq> []"
    using assms(1) by (cases "activeHabitId s") (auto simp: filledIn_def)
  have c: "carriedActiveId x = Val a"
    using assms(2) a by (auto simp: carriedActiveId_def toJson_def asInput_def)
  have y: "in_year x = Some (year s)" and d: "in_completedDays x = strayCompletedDays s"
    using assms(2) by (auto simp: toJson_def asInput_def)
  show ?thesis
    using a hs by (simp add: norm_given [OF b] e c y d del: ensureHabits.simps)
qed

lemma normalize_filledIn:
  assumes "uuidsNonEmpty H"
    and "truthyStr (carriedActiveId x) \<or> noHabits (baseHabits x)
         \<or> (\<exists>h hs. baseHabits x = Val (h # hs) \<and> truthyStr (raw_id h))"
  shows "filledIn (fst (normalizeSettings H n (Some x)))"
proof (cases "baseHabits x" rule: noHabits_cases)
  case 1
  show ?thesis
  proof (cases "truthyDays (in_completedDays x)")
    case True
    then have "migrationFires x" using 1 by (simp add: migrationFires_def)
    then show ?thesis by (simp add: norm_migrated filledIn_def DEFAULT_id_nonempty)
  next
    case False
    then show ?thesis by (simp add: norm_defaulted [OF 1] filledIn_def DEFAULT_id_nonempty)
  qed
next
  case (2 h hs)
  have t: "\<not> truthyStr (carriedActiveId x) \<Longrightarrow> truthyStr (raw_id h)"
    using assms(2) 2 by auto
  show ?thesis
    using t ensureHabits_filled [OF assms(1), of n "h # hs"] ensureHabits_nonempty [of H n "h # hs"]
    by (simp add: norm_given [OF 2] filledIn_def del: ensureHabits.simps)
qed

lemma normalize_None: "normalizeSettings H n None = normalizeSettings H n (Some emptyRecord)"
  by (simp add: normalizeSettings_def)

text \<open>
  Apart from the case above (a falsy \<open>activeHabitId\<close> beside a first habit without an
  id), normalizing twice is normalizing once.
\<close>

lemma normalize_idempotent_when_first_id_present:
  assumes "uuidsNonEmpty H"
    and "truthyStr (carriedActiveId x) \<or> noHabits (baseHabits x)
         \<or> (\<exists>h hs. baseHabits x = Val (h # hs) \<and> truthyStr (raw_id h))"
  shows "fst (normalizeSettings H m (Some (asInput (fst (normalizeSettings H n (Some x))))))
       = fst (normalizeSettings H n (Some x))"
proof -
  have f: "filledIn (fst (normalizeSettings H n (Some x)))"
    by (rule normalize_filledIn [OF assms])
  show ?thesis
    using normalize_fix [OF f disjI2 [OF refl], of H m] by simp
qed

section \<open>getActiveHabit\<close>

lemma find_matches:
  "find P xs = Some y \<Longrightarrow> P y \<and> y \<in> set xs"
  by (induction xs) (auto split: if_splits)

text \<open>
  Every habit of the plugin's settings has an id that is not empty: the loop of
  \<open>normalizeSettings\<close> gives a generated id to each habit that comes without one, and
  nothing else in the plugin writes an id but \<open>addHabit\<close>, which generates it.
\<close>

lemma normalizeSettings_ids_nonempty:
  assumes "uuidsNonEmpty H"
  shows "\<forall>k \<in> set (habits (fst (normalizeSettings H n x))). habitId k \<noteq> []"
proof -
  have some: "\<forall>k \<in> set (habits (fst (normalizeSettings H n (Some r)))). habitId k \<noteq> []" for r
  proof (cases "baseHabits r" rule: noHabits_cases)
    case 1
    show ?thesis
    proof (cases "truthyDays (in_completedDays r)")
      case True
      then have "migrationFires r" using 1 by (simp add: migrationFires_def)
      then show ?thesis by (simp add: norm_migrated DEFAULT_id_nonempty)
    next
      case False
      then show ?thesis by (simp add: norm_defaulted [OF 1] DEFAULT_id_nonempty)
    qed
  next
    case (2 h hs)
    show ?thesis
      using ensureHabits_filled [OF assms, of n "h # hs"]
      by (simp add: norm_given [OF 2] list_all_iff del: ensureHabits.simps)
  qed
  show ?thesis
  proof (cases x)
    case None
    then show ?thesis using some [of emptyRecord] by (simp add: normalize_None)
  next
    case (Some r)
    then show ?thesis using some [of r] by simp
  qed
qed

text \<open>The three results of \<open>getActiveHabit\<close>.\<close>

lemma getActiveHabit_None_iff: "getActiveHabit s = None \<longleftrightarrow> habits s = []"
  by (cases "habits s") (auto simp: getActiveHabit_def Let_def split: option.splits)

lemma getActiveHabit_byId:
  assumes "truthyStr (activeHabitId s)" and "h \<in> set (habits s)"
    and "Val (habitId h) = activeHabitId s"
  shows "getActiveHabit s = find (\<lambda>k. Val (habitId k) = activeHabitId s) (habits s)
     \<and> (\<exists>h'. getActiveHabit s = Some h' \<and> h' \<in> set (habits s)
            \<and> Val (habitId h') = activeHabitId s)"
proof -
  obtain h' where f: "find (\<lambda>k. Val (habitId k) = activeHabitId s) (habits s) = Some h'"
    using assms(2,3)
    by (cases "find (\<lambda>k. Val (habitId k) = activeHabitId s) (habits s)")
      (auto simp: find_None_iff)
  have ne: "habits s \<noteq> []" using assms(2) by auto
  have g: "getActiveHabit s = find (\<lambda>k. Val (habitId k) = activeHabitId s) (habits s)"
    using assms(1) f ne by (simp add: getActiveHabit_def)
  show ?thesis using g f find_matches [OF f] by auto
qed

lemma getActiveHabit_first:
  assumes "habits s \<noteq> []"
    and "\<not> truthyStr (activeHabitId s)
         \<or> (\<forall>k \<in> set (habits s). Val (habitId k) \<noteq> activeHabitId s)"
  shows "getActiveHabit s = Some (hd (habits s))"
proof -
  have "(if truthyStr (activeHabitId s)
              then find (\<lambda>k. Val (habitId k) = activeHabitId s) (habits s) else None) = None"
    using assms(2) by (auto simp: find_None_iff)
  then show ?thesis
    using assms(1) by (cases "habits s") (simp_all add: getActiveHabit_def)
qed

text \<open>
  Without that invariant the lookup by id can be skipped for an id that a habit has:
  the lookup is made only for a truthy \<open>activeHabitId\<close>, so the empty string, were it
  the id of a habit, would not be looked up.
\<close>

lemma getActiveHabit_empty_id:
  "getActiveHabit
      \<lparr>year = 2026,
       habits = [\<lparr>habitId = ''a'', name = ''A'', completedDays = []\<rparr>,
                 \<lparr>habitId = '''', name = ''B'', completedDays = []\<rparr>],
       activeHabitId = Val '''', strayCompletedDays = None\<rparr>
     = Some \<lparr>habitId = ''a'', name = ''A'', completedDays = []\<rparr>"
  by (simp add: getActiveHabit_def)

text \<open>
  Claim C9. For every settings state, in which no habit has an empty id,
  \<open>getActiveHabit\<close> returns null exactly when the habits list is empty; when some
  habit's id equals \<open>activeHabitId\<close> it returns that habit, the first one with that
  id; and when the list is not empty and no habit's id equals \<open>activeHabitId\<close>, which
  includes a null \<open>activeHabitId\<close>, it returns the first habit of the list. The first
  and the third part hold in any state. Stated without the invariant, the lookup by id
  returns the first matching habit whenever \<open>activeHabitId\<close> is a string that is not
  empty, and the first habit is returned whenever \<open>activeHabitId\<close> is null, undefined
  or empty or matches no habit.
\<close>

theorem getActiveHabit_spec:
  "(getActiveHabit s = None \<longleftrightarrow> habits s = [])
   \<and> ((\<forall>k \<in> set (habits s). habitId k \<noteq> []) \<and> h \<in> set (habits s)
          \<and> Val (habitId h) = activeHabitId s \<longrightarrow>
        getActiveHabit s = find (\<lambda>k. Val (habitId k) = activeHabitId s) (habits s)
        \<and> (\<exists>h'. getActiveHabit s = Some h' \<and> h' \<in> set (habits s)
               \<and> Val (habitId h') = activeHabitId s))
   \<and> (habits s \<noteq> [] \<and> (\<forall>k \<in> set (habits s). Val (habitId k) \<noteq> activeHabitId s) \<longrightarrow>
        getActiveHabit s = Some (hd (habits s)))
   \<and> (truthyStr (activeHabitId s) \<and> h \<in> set (habits s) \<and> Val (habitId h) = activeHabitId s \<longrightarrow>
        getActiveHabit s = find (\<lambda>k. Val (habitId k) = activeHabitId s) (habits s)
        \<and> (\<exists>h'. getActiveHabit s = Some h' \<and> h' \<in> set (habits s)
               \<and> Val (habitId h') = activeHabitId s))
   \<and> (habits s \<noteq> [] \<and> (\<not> truthyStr (activeHabitId s)
          \<or> (\<forall>k \<in> set (habits s). Val (habitId k) \<noteq> activeHabitId s)) \<longrightarrow>
        getActiveHabit s = Some (hd (habits s)))"
proof -
  have 2: "getActiveHabit s = find (\<lambda>k. Val (habitId k) = activeHabitId s) (habits s)
        \<and> (\<exists>h'. getActiveHabit s = Some h' \<and> h' \<in> set (habits s)
               \<and> Val (habitId h') = activeHabitId s)"
    if a: "(\<forall>k \<in> set (habits s). habitId k \<noteq> []) \<and> h \<in> set (habits s)
          \<and> Val (habitId h) = activeHabitId s"
  proof -
    have "habitId h \<noteq> []" using a by blast
    then have "truthyStr (Val (habitId h))" by simp
    then have "truthyStr (activeHabitId s)" using a by simp
    then show ?thesis using getActiveHabit_byId [of s h] a by blast
  qed
  have 3: "getActiveHabit s = Some (hd (habits s))"
    if "habits s \<noteq> [] \<and> (\<forall>k \<in> set (habits s). Val (habitId k) \<noteq> activeHabitId s)"
    using that getActiveHabit_first [of s] by blast
  have 4: "getActiveHabit s = find (\<lambda>k. Val (habitId k) = activeHabitId s) (habits s)
        \<and> (\<exists>h'. getActiveHabit s = Some h' \<and> h' \<in> set (habits s)
               \<and> Val (habitId h') = activeHabitId s)"
    if "truthyStr (activeHabitId s) \<and> h \<in> set (habits s) \<and> Val (habitId h) = activeHabitId s"
    using that getActiveHabit_byId [of s h] by blast
  have 5: "getActiveHabit s = Some (hd (habits s))"
    if "habits s \<noteq> [] \<and> (\<not> truthyStr (activeHabitId s)
          \<or> (\<forall>k \<in> set (habits s). Val (habitId k) \<noteq> activeHabitId s))"
    using that getActiveHabit_first [of s] by blast
  show ?thesis using getActiveHabit_None_iff [of s] 2 3 4 5 by blast
qed

theorem getActiveHabit_spec_witness:
  "list_all (\<lambda>k. habitId k \<noteq> [])
      [\<lparr>habitId = ''a'', name = ''A'', completedDays = []\<rparr>,
       \<lparr>habitId = ''b'', name = ''B'', completedDays = []\<rparr>]
   \<and> getActiveHabit
      \<lparr>year = 2026,
       habits = [\<lparr>habitId = ''a'', name = ''A'', completedDays = []\<rparr>,
                 \<lparr>habitId = ''b'', name = ''B'', completedDays = []\<rparr>],
       activeHabitId = Val ''b'', strayCompletedDays = None\<rparr>
     = Some \<lparr>habitId = ''b'', name = ''B'', completedDays = []\<rparr>
   \<and> getActiveHabit
      \<lparr>year = 2026,
       habits = [\<lparr>habitId = ''a'', name = ''A'', completedDays = []\<rparr>,
                 \<lparr>habitId = ''b'', name = ''B'', completedDays = []\<rparr>],
       activeHabitId = Val ''zzz'', strayCompletedDays = None\<rparr>
     = Some \<lparr>habitId = ''a'', name = ''A'', completedDays = []\<rparr>
   \<and> getActiveHabit
      \<lparr>year = 2026,
       habits = [\<lparr>habitId = ''a'', name = ''A'', completedDays = []\<rparr>,
                 \<lparr>habitId = ''b'', name = ''B'', completedDays = []\<rparr>],
       activeHabitId = Null, strayCompletedDays = None\<rparr>
     = Some \<lparr>habitId = ''a'', name = ''A'', completedDays = []\<rparr>"
proof -
  let ?a = "\<lparr>habitId = ''a'', name = ''A'', completedDays = []\<rparr>"
  let ?b = "\<lparr>habitId = ''b'', name = ''B'', completedDays = []\<rparr>"
  let ?s = "\<lambda>v. \<lparr>year = 2026, habits = [?a, ?b], activeHabitId = v, strayCompletedDays = None\<rparr>"
  have inv: "\<forall>k \<in> set (habits (?s v)). habitId k \<noteq> []" for v :: "string js"
    by simp
  have m: "?b \<in> set (habits (?s (Val ''b'')))"
    "Val (habitId ?b) = activeHabitId (?s (Val ''b''))"
    by simp_all
  have 1: "getActiveHabit (?s (Val ''b'')) = Some ?b"
    using getActiveHabit_spec [of "?s (Val ''b'')" ?b] inv [of "Val ''b''"] m by simp
  have n2: "habits (?s (Val ''zzz'')) \<noteq> []
      \<and> (\<forall>k \<in> set (habits (?s (Val ''zzz''))). Val (habitId k) \<noteq> activeHabitId (?s (Val ''zzz'')))"
    by simp
  have 2: "getActiveHabit (?s (Val ''zzz'')) = Some ?a"
    using getActiveHabit_spec [of "?s (Val ''zzz'')"] n2 by simp
  have n3: "habits (?s Null) \<noteq> []
      \<and> (\<forall>k \<in> set (habits (?s Null)). Val (habitId k) \<noteq> activeHabitId (?s Null))"
    by simp
  have 3: "getActiveHabit (?s Null) = Some ?a"
    using getActiveHabit_spec [of "?s Null"] n3 by simp
  show ?thesis using 1 2 3 by simp
qed

section \<open>saveSettings and loadSettings\<close>

lemma saveData_fields:
  "settings (saveData c d p) = settings p" "storageConfig (saveData c d p) = storageConfig p"
  "vault (saveData c d p) = vault p" "draws (saveData c d p) = draws p"
  "pluginData (saveData c d p) = Some \<lparr>blob_config = Some (configJson c),
      blob_data = map_option toJson d, blob_self = emptyRecord\<rparr>"
  by (simp_all add: saveData_def)

lemma saveSettings_plugin:
  assumes "storageMode (storageConfig p) = Plugin"
  shows "saveSettings H A p = saveData (storageConfig p) (Some (settings p)) p"
  using assms by (simp add: saveSettings_def Let_def saveData_fields)

lemma saveSettings_saved:
  assumes "storageMode (storageConfig p) \<noteq> Plugin"
    and "trySaveToVaultFile H A (vault p) (getConfiguredHabitatorDataPath (storageConfig p))
           (settings p) = (True, v)"
  shows "saveSettings H A p = (saveData (storageConfig p) None p)\<lparr>vault := v\<rparr>"
  using assms by (simp add: saveSettings_def Let_def saveData_fields)

lemma saveSettings_failed:
  assumes "storageMode (storageConfig p) \<noteq> Plugin"
    and "trySaveToVaultFile H A (vault p) (getConfiguredHabitatorDataPath (storageConfig p))
           (settings p) = (False, v)"
  shows "saveSettings H A p =
     saveData ((storageConfig p)\<lparr>storageMode := Plugin\<rparr>) (Some (settings p))
       (p\<lparr>vault := v, storageConfig := (storageConfig p)\<lparr>storageMode := Plugin\<rparr>\<rparr>)"
  using assms by (simp add: saveSettings_def Let_def saveData_fields)


lemma normalizeStorageConfig_plugin:
  "storageMode (normalizeStorageConfig (Some (configJson (c\<lparr>storageMode := Plugin\<rparr>)))) = Plugin"
  by (simp add: normalizeStorageConfig_def configJson_def)

lemma loadSettings_found:
  assumes "tryLoadHabitDataFromConfiguredLocation H A
             (normalizeStorageConfig (case pluginData p of None \<Rightarrow> None | Some obj \<Rightarrow> blob_config obj))
             (vault p) (pluginData p) = Some d"
  shows "loadSettings H A p =
     p\<lparr>storageConfig := normalizeStorageConfig
            (case pluginData p of None \<Rightarrow> None | Some obj \<Rightarrow> blob_config obj),
       settings := fst (normalizeSettings H (draws p) (Some d)),
       draws := snd (normalizeSettings H (draws p) (Some d))\<rparr>"
  using assms by (simp add: loadSettings_def Let_def split_beta)

lemma loadSettings_fallback:
  assumes "tryLoadHabitDataFromConfiguredLocation H A
             (normalizeStorageConfig (case pluginData p of None \<Rightarrow> None | Some obj \<Rightarrow> blob_config obj))
             (vault p) (pluginData p) = None"
  shows "loadSettings H A p =
     saveSettings H A
      (p\<lparr>storageConfig := normalizeStorageConfig
            (case pluginData p of None \<Rightarrow> None | Some obj \<Rightarrow> blob_config obj),
         settings := fst (normalizeSettings H (draws p)
            (Some (migrated H A (vault p) (pluginData p)))),
         draws := snd (normalizeSettings H (draws p)
            (Some (migrated H A (vault p) (pluginData p))))\<rparr>)"
  using assms by (simp add: loadSettings_def Let_def split_beta)

lemma saveSettings_persists:
  "settings (saveSettings H A p) = settings p
   \<and> pluginData (saveSettings H A p) =
       Some \<lparr>blob_config = Some (configJson (storageConfig (saveSettings H A p))),
             blob_data = (if storageMode (storageConfig (saveSettings H A p)) = Plugin
                          then Some (toJson (settings p)) else None),
             blob_self = emptyRecord\<rparr>
   \<and> (storageMode (storageConfig (saveSettings H A p)) \<noteq> Plugin \<longrightarrow>
        storageConfig (saveSettings H A p) = storageConfig p
        \<and> trySaveToVaultFile H A (vault p) (getConfiguredHabitatorDataPath (storageConfig p))
            (settings p) = (True, vault (saveSettings H A p)))"
proof (cases "storageMode (storageConfig p) = Plugin")
  case True
  then show ?thesis by (simp add: saveSettings_plugin saveData_fields)
next
  case False
  obtain ok v where t: "trySaveToVaultFile H A (vault p)
      (getConfiguredHabitatorDataPath (storageConfig p)) (settings p) = (ok, v)"
    by (cases "trySaveToVaultFile H A (vault p)
      (getConfiguredHabitatorDataPath (storageConfig p)) (settings p)")
  show ?thesis
  proof (cases ok)
    case True
    then show ?thesis
      using False t by (simp add: saveSettings_saved [OF False] saveData_fields)
  next
    case False
    note nok = this
    then show ?thesis
      using \<open>storageMode (storageConfig p) \<noteq> Plugin\<close> t
      by (simp add: saveSettings_failed [OF \<open>storageMode (storageConfig p) \<noteq> Plugin\<close>] saveData_fields)
  qed
qed

text \<open>
  Claim C7. In a file-backed storage mode, when the write to the vault file fails
  (\<open>trySaveToVaultFile\<close> returns false), \<open>saveSettings\<close> still returns: every call that
  may throw is inside the \<open>try\<close> of \<open>trySaveToVaultFile\<close>. Afterwards the storage mode
  is \<open>plugin\<close>, and the embedded store holds the config with that mode and the settings
  as \<open>data\<close>. The next \<open>loadSettings\<close>, with whatever vault adapter, is in the mode
  \<open>plugin\<close> and takes its record from the embedded store: its settings are the
  normalized stored settings, which are the saved settings themselves when these were
  filled in.
\<close>

theorem save_falls_back_to_plugin_storage:
  assumes "storageMode (storageConfig p) \<noteq> Plugin"
    and "\<not> fst (trySaveToVaultFile H A (vault p)
                 (getConfiguredHabitatorDataPath (storageConfig p)) (settings p))"
  shows "storageMode (storageConfig (saveSettings H A p)) = Plugin
    \<and> settings (saveSettings H A p) = settings p
    \<and> pluginData (saveSettings H A p) =
        Some \<lparr>blob_config = Some \<lparr>raw_storageMode = Val ''plugin'',
                                   raw_customSubdir = Val (customSubdir (storageConfig p))\<rparr>,
              blob_data = Some (toJson (settings p)), blob_self = emptyRecord\<rparr>
    \<and> storageMode (storageConfig (loadSettings H A' (saveSettings H A p))) = Plugin
    \<and> settings (loadSettings H A' (saveSettings H A p)) =
        fst (normalizeSettings H (draws p) (Some (toJson (settings p))))
    \<and> (filledIn (settings p) \<longrightarrow>
         settings (loadSettings H A' (saveSettings H A p)) = settings p)"
proof -
  obtain v where t: "trySaveToVaultFile H A (vault p)
      (getConfiguredHabitatorDataPath (storageConfig p)) (settings p) = (False, v)"
    using assms(2)
    by (cases "trySaveToVaultFile H A (vault p)
      (getConfiguredHabitatorDataPath (storageConfig p)) (settings p)") auto
  let ?q = "saveSettings H A p"
  let ?c = "(storageConfig p)\<lparr>storageMode := Plugin\<rparr>"
  have q: "?q = saveData ?c (Some (settings p)) (p\<lparr>vault := v, storageConfig := ?c\<rparr>)"
    by (rule saveSettings_failed [OF assms(1) t])
  have m: "storageMode (storageConfig ?q) = Plugin"
    and s: "settings ?q = settings p"
    and dr: "draws ?q = draws p"
    and pd: "pluginData ?q = Some \<lparr>blob_config = Some (configJson ?c),
          blob_data = Some (toJson (settings p)), blob_self = emptyRecord\<rparr>"
    by (simp_all add: q saveData_fields)
  have cfg: "storageMode (normalizeStorageConfig
      (case pluginData ?q of None \<Rightarrow> None | Some obj \<Rightarrow> blob_config obj)) = Plugin"
    by (simp add: pd normalizeStorageConfig_plugin)
  have found: "tryLoadHabitDataFromConfiguredLocation H A'
      (normalizeStorageConfig (case pluginData ?q of None \<Rightarrow> None | Some obj \<Rightarrow> blob_config obj))
      (vault ?q) (pluginData ?q) = Some (toJson (settings p))"
    using cfg by (simp add: tryLoadHabitDataFromConfiguredLocation_def pd)
  have l: "loadSettings H A' ?q =
     ?q\<lparr>storageConfig := normalizeStorageConfig
            (case pluginData ?q of None \<Rightarrow> None | Some obj \<Rightarrow> blob_config obj),
       settings := fst (normalizeSettings H (draws ?q) (Some (toJson (settings p)))),
       draws := snd (normalizeSettings H (draws ?q) (Some (toJson (settings p))))\<rparr>"
    by (rule loadSettings_found [OF found])
  have lm: "storageMode (storageConfig (loadSettings H A' ?q)) = Plugin"
    by (simp add: l cfg)
  have ls: "settings (loadSettings H A' ?q) =
      fst (normalizeSettings H (draws p) (Some (toJson (settings p))))"
    by (simp add: l dr)
  have lf: "filledIn (settings p) \<longrightarrow> settings (loadSettings H A' ?q) = settings p"
    using normalize_fix [of "settings p" "toJson (settings p)" H "draws p"] by (simp add: ls)
  have pd': "pluginData ?q =
        Some \<lparr>blob_config = Some \<lparr>raw_storageMode = Val ''plugin'',
                                   raw_customSubdir = Val (customSubdir (storageConfig p))\<rparr>,
              blob_data = Some (toJson (settings p)), blob_self = emptyRecord\<rparr>"
    by (simp add: pd configJson_def)
  show ?thesis using m s pd' lm ls lf by blast
qed

lemma testHost_dirname: "getDirName ''.habitator/habitator.json'' = ''.habitator''"
  by (simp add: getDirName_def lastIndexOf_def slashes_def backslash_def Let_def)

theorem save_falls_back_to_plugin_storage_witness:
  "storageMode (storageConfig sandboxedPlugin) \<noteq> Plugin
   \<and> \<not> fst (trySaveToVaultFile testHost memAdapter (vault sandboxedPlugin)
            (getConfiguredHabitatorDataPath (storageConfig sandboxedPlugin))
            (settings sandboxedPlugin))
   \<and> storageMode (storageConfig (saveSettings testHost memAdapter sandboxedPlugin)) = Plugin
   \<and> filledIn (settings sandboxedPlugin)
   \<and> settings (loadSettings testHost memAdapter (saveSettings testHost memAdapter sandboxedPlugin))
       = settings sandboxedPlugin"
proof -
  have a: "storageMode (storageConfig sandboxedPlugin) \<noteq> Plugin"
    by (simp add: sandboxedPlugin_def DEFAULT_STORAGE_CONFIG_def)
  have b: "\<not> fst (trySaveToVaultFile testHost memAdapter (vault sandboxedPlugin)
            (getConfiguredHabitatorDataPath (storageConfig sandboxedPlugin))
            (settings sandboxedPlugin))"
    by (simp add: sandboxedPlugin_def DEFAULT_STORAGE_CONFIG_def getConfiguredHabitatorDataPath_def
        trySaveToVaultFile_def testHost_dirname memAdapter_def sandboxedVault_def)
  have c: "filledIn (settings sandboxedPlugin)"
    by (simp add: sandboxedPlugin_def filledIn_def)
  note t = save_falls_back_to_plugin_storage [OF a b, of memAdapter]
  have m: "storageMode (storageConfig (saveSettings testHost memAdapter sandboxedPlugin)) = Plugin"
    using t by blast
  have s: "settings (loadSettings testHost memAdapter (saveSettings testHost memAdapter sandboxedPlugin))
       = settings sandboxedPlugin"
    using t c by blast
  show ?thesis using a b c m s by blast
qed


text \<open>
  Claim C2 says that \<open>loadSettings\<close> always ends by saving the record it obtained, also
  when the read from the configured location succeeded. In that case the code returns
  before the save: on a fresh plugin whose vault holds \<open>.habitator/habitator.json\<close>,
  the load leaves the embedded store empty and the vault as it was, while any
  \<open>saveSettings\<close> writes the embedded store.
\<close>

theorem load_from_configured_file_writes_nothing:
  "pluginData (loadSettings testHost memAdapter (freshPlugin storedVault)) = None
   \<and> vault (loadSettings testHost memAdapter (freshPlugin storedVault)) = storedVault
   \<and> map habitId (habits (settings (loadSettings testHost memAdapter (freshPlugin storedVault))))
       = [DEFAULT_id]
   \<and> pluginData (saveSettings testHost memAdapter
        (loadSettings testHost memAdapter (freshPlugin storedVault))) \<noteq> None"
proof -
  have cfg: "normalizeStorageConfig None = DEFAULT_STORAGE_CONFIG"
    by (simp add: normalizeStorageConfig_def sanitize_defs)
  have f: "tryLoadHabitDataFromConfiguredLocation testHost memAdapter
             (normalizeStorageConfig (case pluginData (freshPlugin storedVault) of
                 None \<Rightarrow> None | Some obj \<Rightarrow> blob_config obj))
             (vault (freshPlugin storedVault)) (pluginData (freshPlugin storedVault))
           = Some emptyRecord"
    by (simp add: freshPlugin_def cfg tryLoadHabitDataFromConfiguredLocation_def
        DEFAULT_STORAGE_CONFIG_def getConfiguredHabitatorDataPath_def tryLoadFromVaultFile_def
        memAdapter_def storedVault_def testHost_def)
  have n: "baseHabits emptyRecord = Val DEFAULT_habits"
    by (simp add: baseHabits_def emptyRecord_def)
  have h: "habits (fst (normalizeSettings testHost 0 (Some emptyRecord))) =
      [\<lparr>habitId = DEFAULT_id, name = ''Main habit'', completedDays = []\<rparr>]"
    using norm_given [of emptyRecord "hd DEFAULT_habits" "[]" testHost 0] n
    by (simp add: DEFAULT_habits_def DEFAULT_id_def)
  let ?q = "loadSettings testHost memAdapter (freshPlugin storedVault)"
  note q = loadSettings_found [OF f]
  have 1: "pluginData ?q = None" and 2: "vault ?q = storedVault"
    by (simp_all add: q) (simp_all add: freshPlugin_def)
  have "settings ?q = fst (normalizeSettings testHost 0 (Some emptyRecord))"
    by (simp add: q) (simp add: freshPlugin_def)
  then have 3: "map habitId (habits (settings ?q)) = [DEFAULT_id]"
    by (simp add: h)
  obtain b where "pluginData (saveSettings testHost memAdapter ?q) = Some b"
    using saveSettings_persists [of testHost memAdapter ?q] by blast
  then have 4: "pluginData (saveSettings testHost memAdapter ?q) \<noteq> None" by simp
  show ?thesis using 1 2 3 4 by blast
qed

text \<open>
  Claim C2, amended. When the configured location yields a record, \<open>loadSettings\<close>
  normalizes it and writes nothing: the embedded store and the vault are unchanged. When
  it yields none, the record of the migration fallback is normalized and saved with
  \<open>saveSettings\<close>: afterwards the embedded store holds the config in effect, with the
  settings as \<open>data\<close> when the mode in effect is \<open>plugin\<close>, and in a file-backed mode
  the write of the settings to the path resolved from the config has succeeded.
\<close>

theorem load_persists_only_after_fallback:
  "(tryLoadHabitDataFromConfiguredLocation H A
       (normalizeStorageConfig (case pluginData p of None \<Rightarrow> None | Some obj \<Rightarrow> blob_config obj))
       (vault p) (pluginData p) = Some d \<longrightarrow>
      pluginData (loadSettings H A p) = pluginData p
      \<and> vault (loadSettings H A p) = vault p
      \<and> settings (loadSettings H A p) = fst (normalizeSettings H (draws p) (Some d)))
   \<and> (tryLoadHabitDataFromConfiguredLocation H A
       (normalizeStorageConfig (case pluginData p of None \<Rightarrow> None | Some obj \<Rightarrow> blob_config obj))
       (vault p) (pluginData p) = None \<longrightarrow>
      settings (loadSettings H A p) =
        fst (normalizeSettings H (draws p) (Some (migrated H A (vault p) (pluginData p))))
      \<and> pluginData (loadSettings H A p) =
          Some \<lparr>blob_config = Some (configJson (storageConfig (loadSettings H A p))),
                blob_data = (if storageMode (storageConfig (loadSettings H A p)) = Plugin
                             then Some (toJson (settings (loadSettings H A p))) else None),
                blob_self = emptyRecord\<rparr>
      \<and> (storageMode (storageConfig (loadSettings H A p)) \<noteq> Plugin \<longrightarrow>
           trySaveToVaultFile H A (vault p)
             (getConfiguredHabitatorDataPath (storageConfig (loadSettings H A p)))
             (settings (loadSettings H A p)) = (True, vault (loadSettings H A p))))"
proof (intro conjI impI)
  assume f: "tryLoadHabitDataFromConfiguredLocation H A
       (normalizeStorageConfig (case pluginData p of None \<Rightarrow> None | Some obj \<Rightarrow> blob_config obj))
       (vault p) (pluginData p) = Some d"
  show "pluginData (loadSettings H A p) = pluginData p"
    and "vault (loadSettings H A p) = vault p"
    and "settings (loadSettings H A p) = fst (normalizeSettings H (draws p) (Some d))"
    by (simp_all add: loadSettings_found [OF f])
next
  assume f: "tryLoadHabitDataFromConfiguredLocation H A
       (normalizeStorageConfig (case pluginData p of None \<Rightarrow> None | Some obj \<Rightarrow> blob_config obj))
       (vault p) (pluginData p) = None"
  let ?p1 = "p\<lparr>storageConfig := normalizeStorageConfig
            (case pluginData p of None \<Rightarrow> None | Some obj \<Rightarrow> blob_config obj),
         settings := fst (normalizeSettings H (draws p)
            (Some (migrated H A (vault p) (pluginData p)))),
         draws := snd (normalizeSettings H (draws p)
            (Some (migrated H A (vault p) (pluginData p))))\<rparr>"
  have l: "loadSettings H A p = saveSettings H A ?p1"
    by (rule loadSettings_fallback [OF f])
  note sp = saveSettings_persists [of H A ?p1, folded l]
  show s: "settings (loadSettings H A p) =
        fst (normalizeSettings H (draws p) (Some (migrated H A (vault p) (pluginData p))))"
    using sp by simp
  show "pluginData (loadSettings H A p) =
          Some \<lparr>blob_config = Some (configJson (storageConfig (loadSettings H A p))),
                blob_data = (if storageMode (storageConfig (loadSettings H A p)) = Plugin
                             then Some (toJson (settings (loadSettings H A p))) else None),
                blob_self = emptyRecord\<rparr>"
    using sp by simp
  assume m: "storageMode (storageConfig (loadSettings H A p)) \<noteq> Plugin"
  show "trySaveToVaultFile H A (vault p)
             (getConfiguredHabitatorDataPath (storageConfig (loadSettings H A p)))
             (settings (loadSettings H A p)) = (True, vault (loadSettings H A p))"
    using sp m by simp
qed

theorem load_persists_only_after_fallback_witness:
  "tryLoadHabitDataFromConfiguredLocation testHost memAdapter
       (normalizeStorageConfig (case pluginData (freshPlugin storedVault) of
           None \<Rightarrow> None | Some obj \<Rightarrow> blob_config obj))
       (vault (freshPlugin storedVault)) (pluginData (freshPlugin storedVault)) = Some emptyRecord
   \<and> pluginData (loadSettings testHost memAdapter (freshPlugin storedVault)) = None
   \<and> tryLoadHabitDataFromConfiguredLocation testHost memAdapter
       (normalizeStorageConfig (case pluginData (freshPlugin sandboxedVault) of
           None \<Rightarrow> None | Some obj \<Rightarrow> blob_config obj))
       (vault (freshPlugin sandboxedVault)) (pluginData (freshPlugin sandboxedVault)) = None
   \<and> pluginData (loadSettings testHost memAdapter (freshPlugin sandboxedVault)) \<noteq> None"
proof -
  have cfg: "normalizeStorageConfig None = DEFAULT_STORAGE_CONFIG"
    by (simp add: normalizeStorageConfig_def sanitize_defs)
  have f: "tryLoadHabitDataFromConfiguredLocation testHost memAdapter
       (normalizeStorageConfig (case pluginData (freshPlugin storedVault) of
           None \<Rightarrow> None | Some obj \<Rightarrow> blob_config obj))
       (vault (freshPlugin storedVault)) (pluginData (freshPlugin storedVault)) = Some emptyRecord"
    by (simp add: freshPlugin_def cfg tryLoadHabitDataFromConfiguredLocation_def
        DEFAULT_STORAGE_CONFIG_def getConfiguredHabitatorDataPath_def tryLoadFromVaultFile_def
        memAdapter_def storedVault_def testHost_def)
  have g: "tryLoadHabitDataFromConfiguredLocation testHost memAdapter
       (normalizeStorageConfig (case pluginData (freshPlugin sandboxedVault) of
           None \<Rightarrow> None | Some obj \<Rightarrow> blob_config obj))
       (vault (freshPlugin sandboxedVault)) (pluginData (freshPlugin sandboxedVault)) = None"
    by (simp add: freshPlugin_def cfg tryLoadHabitDataFromConfiguredLocation_def
        DEFAULT_STORAGE_CONFIG_def getConfiguredHabitatorDataPath_def tryLoadFromVaultFile_def
        memAdapter_def sandboxedVault_def)
  have 1: "pluginData (loadSettings testHost memAdapter (freshPlugin storedVault)) = None"
    using load_persists_only_after_fallback [of testHost memAdapter "freshPlugin storedVault"
        emptyRecord] f
    by (simp add: freshPlugin_def)
  obtain b where "pluginData (loadSettings testHost memAdapter (freshPlugin sandboxedVault)) = Some b"
    using load_persists_only_after_fallback [of testHost memAdapter "freshPlugin sandboxedVault"]
      g by blast
  then have 2: "pluginData (loadSettings testHost memAdapter (freshPlugin sandboxedVault)) \<noteq> None"
    by simp
  show ?thesis using f 1 g 2 by blast
qed

end
